theory Spec2Isabelle
  imports Complex_Main
begin

section \<open>The notebook as a document\<close>

text \<open>
  The repository is one Jupyter notebook, \<^verbatim>\<open>02-notebook.ipynb\<close>. Its JSON holds a list of
  cells; every cell has a type, a metadata object (empty for all twelve cells) and its
  source as a list of lines. A line keeps its terminating newline where the JSON has
  one; the one character outside ASCII (a loudspeaker sign closing cell 7) is given by
  its four UTF-8 bytes. Code cells also carry \<^verbatim>\<open>"execution_count": null\<close> and
  \<^verbatim>\<open>"outputs": []\<close>, the same for every one of them, which are left out.
\<close>

datatype cell_type = Markdown | Code

record cell =
  cell_type :: cell_type
  metadata :: "(string \<times> string) list"
  source :: "string list"

definition cell_0 :: cell where
  \<open>cell_0 = \<lparr>cell_type = Markdown, metadata = [], source =
    [''---\<newline>'',
     ''title: Linking Interactive Notebooks\<newline>'',
     ''subtitle: Evolve markdown documents and notebooks into structured data\<newline>'',
     ''author:\<newline>'',
     ''  - name: Rowan Cockett\<newline>'',
     ''    affiliations: Executable Books; Curvenote\<newline>'',
     ''    orcid: 0000-0002-7859-8394\<newline>'',
     ''    email: rowan@curvenote.com\<newline>'',
     ''license:\<newline>'',
     ''  code: MIT\<newline>'',
     ''date: 2023-01-23\<newline>'',
     ''---\<newline>'',
     ''\<newline>'',
     ''MyST allows you to directly include Jupyter Notebooks in your books, documents and websites.\<newline>'',
     ''This Jupyter Notebook can be rendered directly using MyST.\<newline>'',
     ''\<newline>'',
     ''For example, let us import `altair` and create a demo of an interactive plot!'']\<rparr>\<close>

definition cell_1 :: cell where
  \<open>cell_1 = \<lparr>cell_type = Code, metadata = [], source =
    [''import altair as alt\<newline>'',
     ''from vega_datasets import data\<newline>'',
     ''\<newline>'',
     ''source = data.cars()\<newline>'',
     ''brush = alt.selection_interval(encodings=["x"])\<newline>'',
     ''points = (\<newline>'',
     ''    alt.Chart(source)\<newline>'',
     ''    .mark_point()\<newline>'',
     ''    .encode(\<newline>'',
     ''        x="Horsepower:Q",\<newline>'',
     ''        y="Miles_per_Gallon:Q",\<newline>'',
     ''        size="Acceleration",\<newline>'',
     ''        color=alt.condition(brush, "Origin:N", alt.value("lightgray")),\<newline>'',
     ''    )\<newline>'',
     ''    .add_selection(brush)\<newline>'',
     '')\<newline>'',
     ''\<newline>'',
     ''bars = (\<newline>'',
     ''    alt.Chart(source)\<newline>'',
     ''    .mark_bar()\<newline>'',
     ''    .encode(y="Origin:N", color="Origin:N", x="count(Origin):Q")\<newline>'',
     ''    .transform_filter(brush)\<newline>'',
     '')'']\<rparr>\<close>

definition cell_2 :: cell where
  \<open>cell_2 = \<lparr>cell_type = Markdown, metadata = [], source =
    [''We can now plot the altair example, which is fully interactive, try dragging in the plot to select cars by their horsepower.'']\<rparr>\<close>

definition cell_3 :: cell where
  \<open>cell_3 = \<lparr>cell_type = Code, metadata = [], source =
    [''# | label: horsepower\<newline>'',
     ''points & bars'']\<rparr>\<close>

definition cell_4 :: cell where
  \<open>cell_4 = \<lparr>cell_type = Code, metadata = [], source =
    [''# https://matplotlib.org/stable/gallery/statistics/time_series_histogram.html#sphx-glr-gallery-statistics-time-series-histogram-py\<newline>'',
     ''from copy import copy\<newline>'',
     ''\<newline>'',
     ''import numpy as np\<newline>'',
     ''import numpy.matlib\<newline>'',
     ''import matplotlib.pyplot as plt\<newline>'',
     ''from matplotlib.colors import LogNorm'']\<rparr>\<close>

definition cell_5 :: cell where
  \<open>cell_5 = \<lparr>cell_type = Markdown, metadata = [], source =
    [''Here we reference [plot output](#horsepower)'']\<rparr>\<close>

definition cell_6 :: cell where
  \<open>cell_6 = \<lparr>cell_type = Code, metadata = [], source =
    [''# Make some data; a 1D random walk + small fraction of sine waves\<newline>'',
     ''num_series = 1000\<newline>'',
     ''num_points = 100\<newline>'',
     ''SNR = 0.10  # Signal to Noise Ratio\<newline>'',
     ''x = np.linspace(0, 4 * np.pi, num_points)\<newline>'',
     ''# Generate unbiased Gaussian random walks\<newline>'',
     ''Y = np.cumsum(np.random.randn(num_series, num_points), axis=-1)\<newline>'',
     ''# Generate sinusoidal signals\<newline>'',
     ''num_signal = int(round(SNR * num_series))\<newline>'',
     ''phi = (np.pi / 8) * np.random.randn(num_signal, 1)  # small random offset\<newline>'',
     ''Y[-num_signal:] = np.sqrt(np.arange(num_points))[\<newline>'',
     ''    None, :\<newline>'',
     ''] * (  # random walk RMS scaling factor\<newline>'',
     ''    np.sin(x[None, :] - phi) + 0.05 * np.random.randn(num_signal, num_points)\<newline>'',
     '')  # small random noise\<newline>'',
     ''\<newline>'',
     ''\<newline>'',
     ''# Now we will convert the multiple time series into a histogram. Not only will\<newline>'',
     ''# the hidden signal be more visible, but it is also a much quicker procedure.\<newline>'',
     ''# Linearly interpolate between the points in each time series\<newline>'',
     ''num_fine = 800\<newline>'',
     ''x_fine = np.linspace(x.min(), x.max(), num_fine)\<newline>'',
     ''y_fine = np.empty((num_series, num_fine), dtype=float)\<newline>'',
     ''for i in range(num_series):\<newline>'',
     ''    y_fine[i, :] = np.interp(x_fine, x, Y[i, :])\<newline>'',
     ''y_fine = y_fine.flatten()\<newline>'',
     ''x_fine = np.matlib.repmat(x_fine, num_series, 1).flatten()'']\<rparr>\<close>

definition cell_7 :: cell where
  \<open>cell_7 = \<lparr>cell_type = Markdown, metadata = [], source =
    [''Important!\<newline>'',
     ''This data is simulated, and may just be random noise! '' @ [CHR 0xF0, CHR 0x9F, CHR 0x94, CHR 0x8A]]\<rparr>\<close>

definition cell_8 :: cell where
  \<open>cell_8 = \<lparr>cell_type = Code, metadata = [], source =
    [''# | label: plasma\<newline>'',
     ''fig, axes = plt.subplots(figsize=(8, 4), constrained_layout=True)\<newline>'',
     ''cmap = copy(plt.cm.plasma)\<newline>'',
     ''cmap.set_bad(cmap(0))\<newline>'',
     ''h, xedges, yedges = np.histogram2d(x_fine, y_fine, bins=[400, 100])\<newline>'',
     ''pcm = axes.pcolormesh(\<newline>'',
     ''    xedges, yedges, h.T, cmap=cmap, norm=LogNorm(vmax=1.5e2), rasterized=True\<newline>'',
     '')\<newline>'',
     ''fig.colorbar(pcm, ax=axes, label="# points", pad=0)\<newline>'',
     ''axes.set_title("2d histogram and log color scale");'']\<rparr>\<close>

definition cell_9 :: cell where
  \<open>cell_9 = \<lparr>cell_type = Code, metadata = [], source =
    [''import leafmap.foliumap as leafmap'']\<rparr>\<close>

definition cell_10 :: cell where
  \<open>cell_10 = \<lparr>cell_type = Code, metadata = [], source =
    [''m = leafmap.Map(height=600, center=[39.4948, -108.5492], zoom=12)\<newline>'',
     ''url = "https://github.com/opengeos/data/releases/download/raster/Libya-2023-07-01.tif"\<newline>'',
     ''url2 = "https://github.com/opengeos/data/releases/download/raster/Libya-2023-09-13.tif"\<newline>'',
     ''m.split_map(url, url2)\<newline>'',
     ''m'']\<rparr>\<close>

definition cell_11 :: cell where
  \<open>cell_11 = \<lparr>cell_type = Code, metadata = [], source =
    []\<rparr>\<close>

definition notebook :: "cell list" where
  "notebook = [cell_0, cell_1, cell_2, cell_3, cell_4, cell_5, cell_6, cell_7, cell_8, cell_9, cell_10, cell_11]"

subsection \<open>Reading the text of the cells\<close>

text \<open>
  \<open>starts_with p s\<close>: the string \<open>s\<close> begins with \<open>p\<close>; \<open>contains p s\<close>: \<open>p\<close> occurs
  in \<open>s\<close>; \<open>after p s\<close>: every rest of \<open>s\<close> that follows an occurrence of \<open>p\<close>.
\<close>

fun starts_with :: "string \<Rightarrow> string \<Rightarrow> bool" where
  "starts_with [] s = True"
| "starts_with (p # ps) [] = False"
| "starts_with (p # ps) (c # cs) = (p = c \<and> starts_with ps cs)"

fun after :: "string \<Rightarrow> string \<Rightarrow> string list" where
  "after p [] = (if p = [] then [[]] else [])"
| "after p (c # cs) =
     (if starts_with p (c # cs) then drop (length p) (c # cs) # after p cs else after p cs)"

definition contains :: "string \<Rightarrow> string \<Rightarrow> bool" where
  "contains p s = (after p s \<noteq> [])"

definition code_cells :: "cell list \<Rightarrow> (nat \<times> cell) list" where
  "code_cells nb = filter (\<lambda>(k, c). cell_type c = Code) (enumerate 0 nb)"

definition markdown_cells :: "cell list \<Rightarrow> (nat \<times> cell) list" where
  "markdown_cells nb = filter (\<lambda>(k, c). cell_type c = Markdown) (enumerate 0 nb)"

text \<open>
  The rendering tool reads a comment line \<^verbatim>\<open># | label: name\<close> of a code cell as the
  label of that cell's output, and a markdown link whose target is \<^verbatim>\<open>#name\<close> as a
  reference to the output so labelled.
\<close>

definition label_of_line :: "string \<Rightarrow> string option" where
  "label_of_line l =
     (if starts_with ''# | label: '' l
      then Some (takeWhile (\<lambda>c. c \<noteq> CHR 10) (drop (length ''# | label: '') l))
      else None)"

definition labels_of_cell :: "cell \<Rightarrow> string list" where
  "labels_of_cell c = List.map_filter label_of_line (source c)"

definition labels :: "cell list \<Rightarrow> (nat \<times> string) list" where
  "labels nb = concat (map (\<lambda>(k, c). map (Pair k) (labels_of_cell c)) (code_cells nb))"

definition refs_of_line :: "string \<Rightarrow> string list" where
  "refs_of_line l = map (takeWhile (\<lambda>c. c \<noteq> CHR '')'')) (after ''](#'' l)"

definition cross_references :: "cell list \<Rightarrow> (nat \<times> string) list" where
  "cross_references nb =
     concat (map (\<lambda>(k, c). map (Pair k) (concat (map refs_of_line (source c))))
       (markdown_cells nb))"


section \<open>Executing the cells\<close>

text \<open>
  A code cell is a list of Python statements run in order against the notebook's global
  namespace. A statement either finishes and leaves a new state, or raises: the result
  is then the error together with the state as the statement left it at that moment.
\<close>

datatype error =
    NameError string
  | AttributeError string
  | ValueError string
  | IndexError string
  | TypeError string
  | External string string

subsection \<open>Floating point\<close>

text \<open>
  The notebook computes with IEEE doubles. A double is modelled by the real number it
  denotes (infinities and NaN are outside the model), and the arithmetic by four
  parameters: \<open>rnd\<close> rounds an exact result to the double that is stored, so that the sum
  of two doubles is \<open>rnd (a + b)\<close> and a decimal literal such as \<^verbatim>\<open>0.10\<close> is
  \<open>rnd (10 / 100)\<close>; \<open>fsqrt\<close> and \<open>fsin\<close> are the library's square root and sine;
  \<open>fpi\<close> is the double \<^verbatim>\<open>np.pi\<close>. What is proved below for every choice of the four
  holds for the machine's arithmetic in particular; a theorem that needs more says so
  through \<open>ieee_like\<close>.
\<close>

record farith =
  rnd :: "real \<Rightarrow> real"
  fsqrt :: "real \<Rightarrow> real"
  fsin :: "real \<Rightarrow> real"
  fpi :: real

definition fadd :: "farith \<Rightarrow> real \<Rightarrow> real \<Rightarrow> real" where
  "fadd fl a b = rnd fl (a + b)"

definition fsub :: "farith \<Rightarrow> real \<Rightarrow> real \<Rightarrow> real" where
  "fsub fl a b = rnd fl (a - b)"

definition fmul :: "farith \<Rightarrow> real \<Rightarrow> real \<Rightarrow> real" where
  "fmul fl a b = rnd fl (a * b)"

definition fdiv :: "farith \<Rightarrow> real \<Rightarrow> real \<Rightarrow> real" where
  "fdiv fl a b = rnd fl (a / b)"

text \<open>
  \<open>ieee_like\<close>: rounding is monotone, leaves a double unchanged (so rounding twice is
  rounding once), keeps 0 and 1, and is off by at most one part in a thousand (a double
  is off by one part in \<open>2 ^ 53\<close>); the square root of 0 is 0; \<^verbatim>\<open>np.pi\<close> is a
  positive double. Exact real arithmetic, \<open>exact\<close>, is one instance.
\<close>

definition ieee_like :: "farith \<Rightarrow> bool" where
  "ieee_like fl \<longleftrightarrow>
     (\<forall>a b. a \<le> b \<longrightarrow> rnd fl a \<le> rnd fl b)
     \<and> (\<forall>a. rnd fl (rnd fl a) = rnd fl a)
     \<and> rnd fl 0 = 0 \<and> rnd fl 1 = 1
     \<and> (\<forall>a. \<bar>rnd fl a - a\<bar> \<le> \<bar>a\<bar> / 1000)
     \<and> fsqrt fl 0 = 0
     \<and> 0 < fpi fl \<and> rnd fl (fpi fl) = fpi fl"

definition exact :: farith where
  "exact = \<lparr>rnd = (\<lambda>a. a), fsqrt = sqrt, fsin = sin, fpi = pi\<rparr>"

text \<open>Python's \<^verbatim>\<open>round\<close> of a float to an integer: to the nearest, a tie to the even one.\<close>

definition py_round :: "real \<Rightarrow> int" where
  "py_round v =
     (let f = \<lfloor>v\<rfloor>; d = v - of_int f
      in if d < 1 / 2 then f else if 1 / 2 < d then f + 1
         else if even f then f else f + 1)"

subsection \<open>NumPy arrays\<close>

text \<open>
  A one-dimensional array is the list of its elements. A two-dimensional array is the
  list of its rows together with the number of columns, which an array without rows
  still has (its shape is \<open>(0, ncols)\<close>). \<^verbatim>\<open>y_fine\<close> is two-dimensional first and
  one-dimensional after \<^verbatim>\<open>flatten\<close>, so its values are of type \<open>ndarray\<close>.
\<close>

record array2 =
  ncols :: nat
  rows :: "real list list"

datatype ndarray = A1 "real list" | A2 array2

definition nrows :: "array2 \<Rightarrow> nat" where
  "nrows a = length (rows a)"

definition shape :: "array2 \<Rightarrow> nat \<times> nat" where
  "shape a = (nrows a, ncols a)"

definition rectangular :: "array2 \<Rightarrow> bool" where
  "rectangular a = list_all (\<lambda>r. length r = ncols a) (rows a)"

definition flatten :: "array2 \<Rightarrow> real list" where
  "flatten a = concat (rows a)"

definition map_array2 :: "(real \<Rightarrow> real) \<Rightarrow> array2 \<Rightarrow> array2" where
  "map_array2 f a = \<lparr>ncols = ncols a, rows = map (map f) (rows a)\<rparr>"

text \<open>
  \<open>table r c g\<close> is the array of \<open>r\<close> rows and \<open>c\<close> columns whose element in row \<open>i\<close> and
  column \<open>j\<close> is \<open>g i j\<close>.
\<close>

definition table :: "nat \<Rightarrow> nat \<Rightarrow> (nat \<Rightarrow> nat \<Rightarrow> real) \<Rightarrow> array2" where
  "table r c g = \<lparr>ncols = c, rows = map (\<lambda>i. map (g i) [0..<c]) [0..<r]\<rparr>"

text \<open>\<^verbatim>\<open>a[None, :]\<close>: a one-dimensional array as a single row.\<close>

definition as_row :: "real list \<Rightarrow> array2" where
  "as_row a = \<lparr>ncols = length a, rows = [a]\<rparr>"

text \<open>
  Broadcasting. Two sizes of one dimension combine when they are equal or one of them
  is 1, and the dimension of size 1 is then repeated; a value can be assigned to a
  target whose size it has, or when its own size is 1.
\<close>

definition broadcast_dim :: "nat \<Rightarrow> nat \<Rightarrow> error + nat" where
  "broadcast_dim a b =
     (if a = b then Inr a else if a = 1 then Inr b else if b = 1 then Inr a
      else Inl (ValueError ''operands could not be broadcast together''))"

definition stretch :: "nat \<Rightarrow> 'a list \<Rightarrow> 'a list" where
  "stretch n xs = (if length xs = n then xs else replicate n (hd xs))"

definition broadcast2 :: "(real \<Rightarrow> real \<Rightarrow> real) \<Rightarrow> array2 \<Rightarrow> array2 \<Rightarrow> error + array2" where
  "broadcast2 f a b =
     (case broadcast_dim (nrows a) (nrows b) of Inl e \<Rightarrow> Inl e | Inr r \<Rightarrow>
      case broadcast_dim (ncols a) (ncols b) of Inl e \<Rightarrow> Inl e | Inr c \<Rightarrow>
      Inr \<lparr>ncols = c,
           rows = map2 (\<lambda>ra rb. map2 f (stretch c ra) (stretch c rb))
                    (stretch r (rows a)) (stretch r (rows b))\<rparr>)"

text \<open>
  The element of \<open>a\<close> that takes part at position \<open>(i, j)\<close> of a broadcast result: a
  dimension of size 1 always contributes its only index.
\<close>

definition bget :: "array2 \<Rightarrow> nat \<Rightarrow> nat \<Rightarrow> real" where
  "bget a i j = rows a ! (if nrows a = 1 then 0 else i) ! (if ncols a = 1 then 0 else j)"

definition assign_dim :: "nat \<Rightarrow> nat \<Rightarrow> error + unit" where
  "assign_dim v t =
     (if v = t \<or> v = 1 then Inr ()
      else Inl (ValueError ''could not broadcast input array''))"

text \<open>
  A slice \<^verbatim>\<open>a[k:]\<close> of an array of \<open>n\<close> rows starts at row \<open>slice_start k n\<close>: a negative
  \<open>k\<close> counts from the end, and both ends are clipped. \<^verbatim>\<open>a[k:] = v\<close> overwrites the rows
  from there with the rows of \<open>v\<close>, broadcast to the shape of the slice.
\<close>

definition slice_start :: "int \<Rightarrow> nat \<Rightarrow> nat" where
  "slice_start k n = (if k < 0 then nat (max 0 (int n + k)) else min (nat k) n)"

definition assign_rows_from :: "int \<Rightarrow> array2 \<Rightarrow> array2 \<Rightarrow> error + array2" where
  "assign_rows_from k v a =
     (let st = slice_start k (nrows a); t = nrows a - st in
      case assign_dim (nrows v) t of Inl e \<Rightarrow> Inl e | Inr _ \<Rightarrow>
      case assign_dim (ncols v) (ncols a) of Inl e \<Rightarrow> Inl e | Inr _ \<Rightarrow>
      Inr (a\<lparr>rows := take st (rows a) @ map (stretch (ncols a)) (stretch t (rows v))\<rparr>))"

text \<open>\<^verbatim>\<open>a[i, :]\<close> and \<^verbatim>\<open>a[i, :] = v\<close> for a row index \<open>i\<close> that is not negative.\<close>

definition get_row :: "ndarray \<Rightarrow> nat \<Rightarrow> error + real list" where
  "get_row a i =
     (case a of
        A1 _ \<Rightarrow> Inl (IndexError ''too many indices for array'')
      | A2 m \<Rightarrow> if i < nrows m then Inr (rows m ! i)
                else Inl (IndexError ''index is out of bounds for axis 0''))"

definition set_row :: "ndarray \<Rightarrow> nat \<Rightarrow> real list \<Rightarrow> error + ndarray" where
  "set_row a i v =
     (case a of
        A1 _ \<Rightarrow> Inl (IndexError ''too many indices for array'')
      | A2 m \<Rightarrow>
          if \<not> i < nrows m then Inl (IndexError ''index is out of bounds for axis 0'')
          else case assign_dim (length v) (ncols m) of Inl e \<Rightarrow> Inl e | Inr _ \<Rightarrow>
               Inr (A2 (m\<lparr>rows := (rows m)[i := stretch (ncols m) v]\<rparr>)))"

text \<open>\<^verbatim>\<open>a.flatten()\<close>: the elements row by row; a copy of a one-dimensional array.\<close>

definition flatten_nd :: "ndarray \<Rightarrow> real list" where
  "flatten_nd a = (case a of A1 v \<Rightarrow> v | A2 m \<Rightarrow> flatten m)"

text \<open>\<^verbatim>\<open>a.min()\<close> and \<^verbatim>\<open>a.max()\<close> raise on an array without elements.\<close>

fun amin :: "real list \<Rightarrow> error + real" where
  "amin [] = Inl (ValueError ''zero-size array to reduction operation minimum which has no identity'')"
| "amin (v # vs) = Inr (fold min vs v)"

fun amax :: "real list \<Rightarrow> error + real" where
  "amax [] = Inl (ValueError ''zero-size array to reduction operation maximum which has no identity'')"
| "amax (v # vs) = Inr (fold max vs v)"

subsection \<open>NumPy functions\<close>

text \<open>
  The functions of NumPy that the notebook calls, as NumPy documents and computes them.

  \<^verbatim>\<open>np.linspace(start, stop, num)\<close>: \<open>num\<close> samples from \<open>start\<close> to \<open>stop\<close>, both
  included. NumPy multiplies the indices by the step \<open>(stop - start) / (num - 1)\<close>
  (dividing first when the step rounds to 0), adds \<open>start\<close>, and stores \<open>stop\<close>
  itself as the last sample.
\<close>

definition linspace :: "farith \<Rightarrow> real \<Rightarrow> real \<Rightarrow> nat \<Rightarrow> real list" where
  "linspace fl start stop num =
     (let dv = num - 1;
          delta = fsub fl stop start;
          step = fdiv fl delta (real dv);
          y = (if 0 < dv
               then (if step = 0
                     then map (\<lambda>i. fmul fl (fdiv fl (real i) (real dv)) delta) [0..<num]
                     else map (\<lambda>i. fmul fl (real i) step) [0..<num])
               else map (\<lambda>i. fmul fl (real i) delta) [0..<num]);
          y' = map (\<lambda>v. fadd fl v start) y
      in if 1 < num then butlast y' @ [stop] else y')"

text \<open>\<^verbatim>\<open>np.arange(n)\<close> and the square root of each element.\<close>

definition arange :: "nat \<Rightarrow> real list" where
  "arange n = map real [0..<n]"

text \<open>
  \<^verbatim>\<open>np.cumsum(a, axis=-1)\<close>: along each row, the first element and then each running
  sum, accumulated from left to right.
\<close>

fun cumsum_from :: "farith \<Rightarrow> real \<Rightarrow> real list \<Rightarrow> real list" where
  "cumsum_from fl acc [] = []"
| "cumsum_from fl acc (v # vs) = fadd fl acc v # cumsum_from fl (fadd fl acc v) vs"

fun cumsum1 :: "farith \<Rightarrow> real list \<Rightarrow> real list" where
  "cumsum1 fl [] = []"
| "cumsum1 fl (v # vs) = v # cumsum_from fl v vs"

definition cumsum :: "farith \<Rightarrow> array2 \<Rightarrow> array2" where
  "cumsum fl a = \<lparr>ncols = ncols a, rows = map (cumsum1 fl) (rows a)\<rparr>"

text \<open>
  \<^verbatim>\<open>np.interp(x, xp, fp)\<close>: the piecewise linear interpolant through the points
  \<open>(xp, fp)\<close>, evaluated at each element of \<open>x\<close>. A query beyond the last sample point
  gets the last value and one before the first sample point the first value (the two
  clamping branches); a query inside is located between two neighbouring sample
  points (for increasing \<open>xp\<close>, as NumPy requires, the bisection finds the last sample
  point that is not greater) and interpolated on that segment.
\<close>

datatype region = Left | Right | Inside

definition locate :: "real list \<Rightarrow> real \<Rightarrow> region" where
  "locate xp q = (if last xp < q then Right else if q < hd xp then Left else Inside)"

definition segment :: "real list \<Rightarrow> real \<Rightarrow> nat" where
  "segment xp q = length (takeWhile (\<lambda>v. v \<le> q) xp) - 1"

definition interp1 :: "farith \<Rightarrow> real list \<Rightarrow> real list \<Rightarrow> real \<Rightarrow> real" where
  "interp1 fl xp fp q =
     (case locate xp q of
        Right \<Rightarrow> last fp
      | Left \<Rightarrow> hd fp
      | Inside \<Rightarrow>
          (let j = segment xp q in
           if j = length xp - 1 then fp ! j
           else if xp ! j = q then fp ! j
           else (let slope = fdiv fl (fsub fl (fp ! (j + 1)) (fp ! j))
                                     (fsub fl (xp ! (j + 1)) (xp ! j))
                 in fadd fl (fmul fl slope (fsub fl q (xp ! j))) (fp ! j))))"

definition interp :: "farith \<Rightarrow> real list \<Rightarrow> real list \<Rightarrow> real list \<Rightarrow> error + real list" where
  "interp fl x xp fp =
     (if xp = [] then Inl (ValueError ''array of sample points is empty'')
      else if length fp \<noteq> length xp
      then Inl (ValueError ''fp and xp are not of the same length.'')
      else Inr (map (interp1 fl xp fp) x))"

text \<open>
  \<^verbatim>\<open>np.matlib.repmat(a, m, n)\<close> of a one-dimensional \<open>a\<close>: \<open>m\<close> rows, each \<open>n\<close> copies of
  \<open>a\<close> side by side.
\<close>

definition repmat :: "real list \<Rightarrow> nat \<Rightarrow> nat \<Rightarrow> array2" where
  "repmat a m n = \<lparr>ncols = length a * n, rows = replicate m (concat (replicate n a))\<rparr>"

text \<open>
  \<^verbatim>\<open>np.histogram2d(x, y, bins=[bx, by])\<close>. The edges of each axis are \<open>linspace\<close> from the
  least to the greatest sample (from 0 to 1 without samples, and half a unit to both
  sides when the two are equal). A sample falls into the bin whose left edge is the
  last edge not greater than it; a sample on the last edge belongs to the last bin.
  The count of each pair of bins is returned as a float.
\<close>

definition outer_edges :: "farith \<Rightarrow> real list \<Rightarrow> real \<times> real" where
  "outer_edges fl a =
     (case (amin a, amax a) of
        (Inr lo, Inr hi) \<Rightarrow>
          if lo = hi then (fsub fl lo (rnd fl (1 / 2)), fadd fl hi (rnd fl (1 / 2)))
          else (lo, hi)
      | _ \<Rightarrow> (0, 1))"

definition bin_edges :: "farith \<Rightarrow> real list \<Rightarrow> nat \<Rightarrow> real list" where
  "bin_edges fl a n = (case outer_edges fl a of (lo, hi) \<Rightarrow> linspace fl lo hi (n + 1))"

definition bin_index :: "real list \<Rightarrow> real \<Rightarrow> nat" where
  "bin_index edges v =
     (let k = length (filter (\<lambda>e. e \<le> v) edges)
      in if v = last edges then k - 1 else k)"

definition histogram2d ::
  "farith \<Rightarrow> real list \<Rightarrow> ndarray \<Rightarrow> nat \<Rightarrow> nat \<Rightarrow> error + (array2 \<times> real list \<times> real list)" where
  "histogram2d fl x y bx by =
     (case y of
        A2 _ \<Rightarrow> Inl (ValueError ''x and y must have the same length.'')
      | A1 yv \<Rightarrow>
          if length x \<noteq> length yv
          then Inl (ValueError ''x and y must have the same length.'')
          else if bx < 1 \<or> by < 1
          then Inl (ValueError ''`bins[{}]` must be positive, when an integer'')
          else
            (let xedges = bin_edges fl x bx;
                 yedges = bin_edges fl yv by;
                 cell_of = (\<lambda>(u, v). (bin_index xedges u, bin_index yedges v));
                 cs = map cell_of (zip x yv)
             in Inr (table bx by (\<lambda>i j. real (count_list cs (i + 1, j + 1))),
                     xedges, yedges)))"

text \<open>\<^verbatim>\<open>h.T\<close>: the transposed array.\<close>

definition transpose2 :: "array2 \<Rightarrow> array2" where
  "transpose2 a = table (ncols a) (nrows a) (\<lambda>j i. rows a ! i ! j)"

subsection \<open>The libraries' objects\<close>

text \<open>
  The charting, plotting and mapping libraries are not part of the repository. Their
  objects are modelled by what the notebook passes to them: a chart by its data, mark,
  encodings, selections and filters; a figure, its axes, a colormap and a mesh by the
  arguments of the calls that made or changed them; a map by its options and the two
  layers of its split view. The cars dataset is a table supplied from outside.
\<close>

datatype dataframe = DataFrame (columns: "string list") (records: "string list list")

datatype selection = Selection_interval (encodings: "string list")

datatype channel_def =
    Shorthand string
  | Value_of string
  | Condition selection channel_def channel_def

record chart =
  data :: dataframe
  mark :: string
  encoding :: "(string \<times> channel_def) list"
  selections :: "selection list"
  filters :: "selection list"

datatype color = Lut string nat

record colormap =
  cmap_name :: string
  bad :: "color option"

record mesh =
  mesh_x :: "real list"
  mesh_y :: "real list"
  mesh_c :: array2
  mesh_cmap :: colormap
  norm_vmax :: real
  rasterized :: bool

record colorbar =
  cb_label :: string
  cb_pad :: real

record figure =
  figsize :: "real \<times> real"
  constrained_layout :: bool
  colorbars :: "colorbar list"

record axes =
  meshes :: "mesh list"
  title :: string

record lmap =
  height :: nat
  center :: "real list"
  zoom :: nat
  split :: "(string \<times> string) option"

datatype shown = Show_chart "chart list" | Show_map lmap

subsection \<open>The state of the kernel\<close>

text \<open>
  The state holds the names bound by \<^verbatim>\<open>import\<close> statements, how many numbers have been
  drawn from NumPy's global random generator, the values the cells have displayed, and
  one field \<open>v_n\<close> for every global variable \<open>n\<close> the notebook assigns, \<open>None\<close> while the
  name is unbound. A variable has the type of the values the notebook gives it;
  \<^verbatim>\<open>num_series\<close>, \<^verbatim>\<open>num_points\<close> and \<^verbatim>\<open>num_fine\<close> are assigned literals that are not
  negative.
\<close>

record state =
  imported :: "string list"
  rng_pos :: nat
  displayed :: "shown list"
  v_source :: "dataframe option"
  v_brush :: "selection option"
  v_points :: "chart option"
  v_bars :: "chart option"
  v_num_series :: "nat option"
  v_num_points :: "nat option"
  v_SNR :: "real option"
  v_x :: "real list option"
  v_Y :: "array2 option"
  v_num_signal :: "int option"
  v_phi :: "array2 option"
  v_num_fine :: "nat option"
  v_x_fine :: "real list option"
  v_y_fine :: "ndarray option"
  v_i :: "nat option"
  v_fig :: "figure option"
  v_axes :: "axes option"
  v_cmap :: "colormap option"
  v_h :: "array2 option"
  v_xedges :: "real list option"
  v_yedges :: "real list option"
  v_pcm :: "mesh option"
  v_m :: "lmap option"
  v_url :: "string option"
  v_url2 :: "string option"

definition fresh :: state where
  "fresh = \<lparr>imported = [], rng_pos = 0, displayed = [],
     v_source = None, v_brush = None, v_points = None, v_bars = None,
     v_num_series = None, v_num_points = None, v_SNR = None, v_x = None, v_Y = None,
     v_num_signal = None, v_phi = None, v_num_fine = None, v_x_fine = None,
     v_y_fine = None, v_i = None, v_fig = None, v_axes = None, v_cmap = None,
     v_h = None, v_xedges = None, v_yedges = None, v_pcm = None, v_m = None,
     v_url = None, v_url2 = None\<rparr>"

text \<open>
  The world outside the notebook: the floating-point arithmetic, the numbers the random
  generator delivers, what uninitialised memory holds, which calls into the charting,
  plotting and mapping libraries (and which imports) fail and with what error, and the
  cars dataset.
\<close>

record world =
  arith :: farith
  draws :: "nat \<Rightarrow> real"
  uninit :: "nat \<Rightarrow> real"
  fault :: "string \<Rightarrow> error option"
  cars :: dataframe

type_synonym stmt = "state \<Rightarrow> (error \<times> state) + state"

definition and_then :: "error + 'a \<Rightarrow> ('a \<Rightarrow> error + 'b) \<Rightarrow> error + 'b" where
  "and_then r k = (case r of Inl e \<Rightarrow> Inl e | Inr v \<Rightarrow> k v)"

text \<open>A statement that raises before it has changed anything leaves the state as it was.\<close>

definition raising :: "state \<Rightarrow> error + state \<Rightarrow> (error \<times> state) + state" where
  "raising s r = (case r of Inl e \<Rightarrow> Inl (e, s) | Inr s' \<Rightarrow> Inr s')"

text \<open>Reading a module name, a variable, and calling into an outside library.\<close>

definition need :: "string \<Rightarrow> state \<Rightarrow> error + unit" where
  "need n s = (if n \<in> set (imported s) then Inr () else Inl (NameError n))"

definition var :: "string \<Rightarrow> 'a option \<Rightarrow> error + 'a" where
  "var n v = (case v of None \<Rightarrow> Inl (NameError n) | Some a \<Rightarrow> Inr a)"

definition ext :: "world \<Rightarrow> string \<Rightarrow> error + unit" where
  "ext w call = (case fault w call of Some e \<Rightarrow> Inl e | None \<Rightarrow> Inr ())"

definition import_as :: "world \<Rightarrow> string \<Rightarrow> string list \<Rightarrow> stmt" where
  "import_as w modname names s =
     raising s (and_then (ext w modname) (\<lambda>_. Inr (s\<lparr>imported := imported s @ names\<rparr>)))"

text \<open>
  \<^verbatim>\<open>np.random.randn(k, m)\<close> draws \<open>k * m\<close> numbers, row by row, starting at position
  \<open>pos\<close> of the generator's sequence; a negative dimension is refused. \<^verbatim>\<open>np.empty\<close>
  hands out uninitialised memory.
\<close>

definition drawn :: "world \<Rightarrow> nat \<Rightarrow> nat \<Rightarrow> nat \<Rightarrow> array2" where
  "drawn w pos k m = table k m (\<lambda>i j. draws w (pos + i * m + j))"

definition randn :: "world \<Rightarrow> nat \<Rightarrow> int \<Rightarrow> nat \<Rightarrow> error + array2" where
  "randn w pos k m =
     (if k < 0 then Inl (ValueError ''negative dimensions are not allowed'')
      else Inr (drawn w pos (nat k) m))"

definition empty :: "world \<Rightarrow> nat \<Rightarrow> nat \<Rightarrow> array2" where
  "empty w n m = table n m (\<lambda>i j. uninit w (i * m + j))"

text \<open>Running statements in order; the first one that raises ends the run.\<close>

fun exec :: "stmt list \<Rightarrow> stmt" where
  "exec [] s = Inr s"
| "exec (c # cs) s = (case c s of Inl f \<Rightarrow> Inl f | Inr s' \<Rightarrow> exec cs s')"

text \<open>\<^verbatim>\<open>for i in <values>: <body>\<close>: \<open>i\<close> is bound to each value in turn.\<close>

fun for_in :: "nat list \<Rightarrow> stmt list \<Rightarrow> stmt" where
  "for_in [] body s = Inr s"
| "for_in (k # ks) body s =
     (case exec body (s\<lparr>v_i := Some k\<rparr>) of Inl f \<Rightarrow> Inl f | Inr s' \<Rightarrow> for_in ks body s')"

subsection \<open>Cell 1: the two charts\<close>

text \<open>
  \<^verbatim>\<open>source = data.cars()\<close>, \<^verbatim>\<open>brush = alt.selection_interval(encodings=["x"])\<close>, and the
  two charts built from them. Names are looked up and the libraries are called in the
  order in which Python evaluates the expression.
\<close>

definition assign_source :: "world \<Rightarrow> stmt" where
  "assign_source w s = raising s
     (and_then (need ''data'' s) (\<lambda>_.
      and_then (ext w ''data.cars'') (\<lambda>_.
      Inr (s\<lparr>v_source := Some (cars w)\<rparr>))))"

definition assign_brush :: "world \<Rightarrow> stmt" where
  "assign_brush w s = raising s
     (and_then (need ''alt'' s) (\<lambda>_.
      and_then (ext w ''alt.selection_interval'') (\<lambda>_.
      Inr (s\<lparr>v_brush := Some (Selection_interval [''x''])\<rparr>))))"

definition assign_points :: "world \<Rightarrow> stmt" where
  "assign_points w s = raising s
     (and_then (need ''alt'' s) (\<lambda>_.
      and_then (var ''source'' (v_source s)) (\<lambda>src.
      and_then (ext w ''alt.Chart'') (\<lambda>_.
      and_then (ext w ''mark_point'') (\<lambda>_.
      and_then (var ''brush'' (v_brush s)) (\<lambda>b.
      and_then (ext w ''alt.value'') (\<lambda>_.
      and_then (ext w ''alt.condition'') (\<lambda>_.
      and_then (ext w ''encode'') (\<lambda>_.
      and_then (ext w ''add_selection'') (\<lambda>_.
      Inr (s\<lparr>v_points := Some
        \<lparr>data = src, mark = ''point'',
         encoding =
           [(''x'', Shorthand ''Horsepower:Q''),
            (''y'', Shorthand ''Miles_per_Gallon:Q''),
            (''size'', Shorthand ''Acceleration''),
            (''color'', Condition b (Shorthand ''Origin:N'') (Value_of ''lightgray''))],
         selections = [b], filters = []\<rparr>\<rparr>)))))))))))"

definition assign_bars :: "world \<Rightarrow> stmt" where
  "assign_bars w s = raising s
     (and_then (need ''alt'' s) (\<lambda>_.
      and_then (var ''source'' (v_source s)) (\<lambda>src.
      and_then (ext w ''alt.Chart'') (\<lambda>_.
      and_then (ext w ''mark_bar'') (\<lambda>_.
      and_then (ext w ''encode'') (\<lambda>_.
      and_then (var ''brush'' (v_brush s)) (\<lambda>b.
      and_then (ext w ''transform_filter'') (\<lambda>_.
      Inr (s\<lparr>v_bars := Some
        \<lparr>data = src, mark = ''bar'',
         encoding =
           [(''y'', Shorthand ''Origin:N''),
            (''color'', Shorthand ''Origin:N''),
            (''x'', Shorthand ''count(Origin):Q'')],
         selections = [], filters = [b]\<rparr>\<rparr>)))))))))"

definition chart_cell :: "world \<Rightarrow> stmt list" where
  "chart_cell w =
     [import_as w ''altair'' [''alt''],
      import_as w ''vega_datasets'' [''data''],
      assign_source w, assign_brush w, assign_points w, assign_bars w]"

subsection \<open>Cell 3: the interactive chart\<close>

text \<open>\<^verbatim>\<open>points & bars\<close>: the two charts one above the other, displayed as the cell's value.\<close>

definition show_chart :: "world \<Rightarrow> stmt" where
  "show_chart w s = raising s
     (and_then (var ''points'' (v_points s)) (\<lambda>p.
      and_then (var ''bars'' (v_bars s)) (\<lambda>b.
      and_then (ext w ''&'') (\<lambda>_.
      Inr (s\<lparr>displayed := displayed s @ [Show_chart [p, b]]\<rparr>)))))"

definition display_cell :: "world \<Rightarrow> stmt list" where
  "display_cell w = [show_chart w]"

subsection \<open>Cell 4: imports\<close>

text \<open>
  \<^verbatim>\<open>import numpy.matlib\<close> binds the name \<^verbatim>\<open>numpy\<close> and loads the submodule, which
  makes the attribute \<^verbatim>\<open>np.matlib\<close> exist; the entry \<^verbatim>\<open>numpy.matlib\<close> records that.
\<close>

definition import_cell :: "world \<Rightarrow> stmt list" where
  "import_cell w =
     [import_as w ''copy'' [''copy''],
      import_as w ''numpy'' [''np''],
      import_as w ''numpy.matlib'' [''numpy'', ''numpy.matlib''],
      import_as w ''matplotlib.pyplot'' [''plt''],
      import_as w ''matplotlib.colors'' [''LogNorm'']]"

subsection \<open>Cell 6: the simulated data\<close>

text \<open>
  The three sizes are literals of the cell (1000, 100 and 800); the statements are
  given for any sizes, and \<open>data_cell\<close> is the cell with its own.
\<close>

definition assign_num_series :: "nat \<Rightarrow> stmt" where
  "assign_num_series n s = Inr (s\<lparr>v_num_series := Some n\<rparr>)"

definition assign_num_points :: "nat \<Rightarrow> stmt" where
  "assign_num_points p s = Inr (s\<lparr>v_num_points := Some p\<rparr>)"

definition assign_SNR :: "world \<Rightarrow> stmt" where
  "assign_SNR w s = Inr (s\<lparr>v_SNR := Some (rnd (arith w) (10 / 100))\<rparr>)"

text \<open>\<^verbatim>\<open>x = np.linspace(0, 4 * np.pi, num_points)\<close>\<close>

definition assign_x :: "world \<Rightarrow> stmt" where
  "assign_x w s = raising s
     (and_then (need ''np'' s) (\<lambda>_.
      and_then (var ''num_points'' (v_num_points s)) (\<lambda>p.
      Inr (s\<lparr>v_x := Some (linspace (arith w) 0 (fmul (arith w) 4 (fpi (arith w))) p)\<rparr>))))"

text \<open>\<^verbatim>\<open>Y = np.cumsum(np.random.randn(num_series, num_points), axis=-1)\<close>\<close>

definition assign_Y :: "world \<Rightarrow> stmt" where
  "assign_Y w s = raising s
     (and_then (need ''np'' s) (\<lambda>_.
      and_then (var ''num_series'' (v_num_series s)) (\<lambda>n.
      and_then (var ''num_points'' (v_num_points s)) (\<lambda>p.
      and_then (randn w (rng_pos s) (int n) p) (\<lambda>r.
      Inr (s\<lparr>rng_pos := rng_pos s + n * p, v_Y := Some (cumsum (arith w) r)\<rparr>))))))"

text \<open>\<^verbatim>\<open>num_signal = int(round(SNR * num_series))\<close>\<close>

definition assign_num_signal :: "world \<Rightarrow> stmt" where
  "assign_num_signal w s = raising s
     (and_then (var ''SNR'' (v_SNR s)) (\<lambda>snr.
      and_then (var ''num_series'' (v_num_series s)) (\<lambda>n.
      Inr (s\<lparr>v_num_signal := Some (py_round (fmul (arith w) snr (real n)))\<rparr>))))"

text \<open>\<^verbatim>\<open>phi = (np.pi / 8) * np.random.randn(num_signal, 1)\<close>\<close>

definition assign_phi :: "world \<Rightarrow> stmt" where
  "assign_phi w s = raising s
     (and_then (need ''np'' s) (\<lambda>_.
      and_then (var ''num_signal'' (v_num_signal s)) (\<lambda>k.
      and_then (randn w (rng_pos s) k 1) (\<lambda>r.
      Inr (s\<lparr>rng_pos := rng_pos s + nat k * 1,
             v_phi := Some (map_array2 (fmul (arith w) (fdiv (arith w) (fpi (arith w)) 8)) r)\<rparr>)))))"

text \<open>
  The sinusoidal signals,
  \<^verbatim>\<open>Y[-num_signal:] = np.sqrt(np.arange(num_points))[None, :] * (np.sin(x[None, :] - phi) + 0.05 * np.random.randn(num_signal, num_points))\<close>.
  Python evaluates the right-hand side first: the row of square roots, the sines, the
  noise (which draws from the generator), their sum and the product; then it looks up
  \<^verbatim>\<open>Y\<close> and the slice and stores. \<open>signal_noise\<close> is the part up to the draw; what can
  still raise after it leaves the generator advanced.
\<close>

definition signal_noise :: "world \<Rightarrow> state \<Rightarrow> error + (array2 \<times> array2 \<times> array2 \<times> int)" where
  "signal_noise w s =
     and_then (need ''np'' s) (\<lambda>_.
     and_then (var ''num_points'' (v_num_points s)) (\<lambda>p.
     and_then (var ''x'' (v_x s)) (\<lambda>xs.
     and_then (var ''phi'' (v_phi s)) (\<lambda>ph.
     and_then (broadcast2 (fsub (arith w)) (as_row xs) ph) (\<lambda>d.
     and_then (var ''num_signal'' (v_num_signal s)) (\<lambda>k.
     and_then (randn w (rng_pos s) k p) (\<lambda>r.
     Inr (as_row (map (fsqrt (arith w)) (arange p)),
          map_array2 (fsin (arith w)) d,
          map_array2 (fmul (arith w) (rnd (arith w) (5 / 100))) r,
          k))))))))"

definition assign_signal :: "world \<Rightarrow> stmt" where
  "assign_signal w s =
     (case signal_noise w s of
        Inl e \<Rightarrow> Inl (e, s)
      | Inr (roots, sines, noise, k) \<Rightarrow>
          (let s1 = s\<lparr>rng_pos := rng_pos s + nat k * ncols noise\<rparr> in
           raising s1
             (and_then (broadcast2 (fadd (arith w)) sines noise) (\<lambda>sm.
              and_then (broadcast2 (fmul (arith w)) roots sm) (\<lambda>v.
              and_then (var ''Y'' (v_Y s1)) (\<lambda>y.
              and_then (var ''num_signal'' (v_num_signal s1)) (\<lambda>k'.
              and_then (assign_rows_from (- k') v y) (\<lambda>y'.
              Inr (s1\<lparr>v_Y := Some y'\<rparr>)))))))))"

definition assign_num_fine :: "nat \<Rightarrow> stmt" where
  "assign_num_fine f s = Inr (s\<lparr>v_num_fine := Some f\<rparr>)"

text \<open>\<^verbatim>\<open>x_fine = np.linspace(x.min(), x.max(), num_fine)\<close>\<close>

definition assign_x_fine :: "world \<Rightarrow> stmt" where
  "assign_x_fine w s = raising s
     (and_then (need ''np'' s) (\<lambda>_.
      and_then (var ''x'' (v_x s)) (\<lambda>xs.
      and_then (amin xs) (\<lambda>lo.
      and_then (amax xs) (\<lambda>hi.
      and_then (var ''num_fine'' (v_num_fine s)) (\<lambda>f.
      Inr (s\<lparr>v_x_fine := Some (linspace (arith w) lo hi f)\<rparr>)))))))"

text \<open>\<^verbatim>\<open>y_fine = np.empty((num_series, num_fine), dtype=float)\<close>\<close>

definition assign_y_fine :: "world \<Rightarrow> stmt" where
  "assign_y_fine w s = raising s
     (and_then (need ''np'' s) (\<lambda>_.
      and_then (var ''num_series'' (v_num_series s)) (\<lambda>n.
      and_then (var ''num_fine'' (v_num_fine s)) (\<lambda>f.
      Inr (s\<lparr>v_y_fine := Some (A2 (empty w n f))\<rparr>)))))"

text \<open>
  \<^verbatim>\<open>for i in range(num_series): y_fine[i, :] = np.interp(x_fine, x, Y[i, :])\<close>
\<close>

definition assign_y_fine_row :: "world \<Rightarrow> stmt" where
  "assign_y_fine_row w s = raising s
     (and_then (need ''np'' s) (\<lambda>_.
      and_then (var ''x_fine'' (v_x_fine s)) (\<lambda>xf.
      and_then (var ''x'' (v_x s)) (\<lambda>xs.
      and_then (var ''Y'' (v_Y s)) (\<lambda>y.
      and_then (var ''i'' (v_i s)) (\<lambda>k.
      and_then (get_row (A2 y) k) (\<lambda>fp.
      and_then (interp (arith w) xf xs fp) (\<lambda>v.
      and_then (var ''y_fine'' (v_y_fine s)) (\<lambda>yf.
      and_then (set_row yf k v) (\<lambda>yf'.
      Inr (s\<lparr>v_y_fine := Some yf'\<rparr>)))))))))))"

definition interpolate_all :: "world \<Rightarrow> stmt" where
  "interpolate_all w s =
     (case var ''num_series'' (v_num_series s) of
        Inl e \<Rightarrow> Inl (e, s)
      | Inr n \<Rightarrow> for_in [0..<n] [assign_y_fine_row w] s)"

text \<open>\<^verbatim>\<open>y_fine = y_fine.flatten()\<close>\<close>

definition flatten_y_fine :: stmt where
  "flatten_y_fine s = raising s
     (and_then (var ''y_fine'' (v_y_fine s)) (\<lambda>yf.
      Inr (s\<lparr>v_y_fine := Some (A1 (flatten_nd yf))\<rparr>)))"

text \<open>\<^verbatim>\<open>x_fine = np.matlib.repmat(x_fine, num_series, 1).flatten()\<close>\<close>

definition matlib :: "state \<Rightarrow> error + unit" where
  "matlib s =
     (if ''numpy.matlib'' \<in> set (imported s) then Inr ()
      else Inl (AttributeError ''module numpy has no attribute matlib''))"

definition repeat_x_fine :: stmt where
  "repeat_x_fine s = raising s
     (and_then (need ''np'' s) (\<lambda>_.
      and_then (matlib s) (\<lambda>_.
      and_then (var ''x_fine'' (v_x_fine s)) (\<lambda>xf.
      and_then (var ''num_series'' (v_num_series s)) (\<lambda>n.
      Inr (s\<lparr>v_x_fine := Some (flatten (repmat xf n 1))\<rparr>))))))"

definition data_cell_of :: "world \<Rightarrow> nat \<Rightarrow> nat \<Rightarrow> nat \<Rightarrow> stmt list" where
  "data_cell_of w n p f =
     [assign_num_series n, assign_num_points p, assign_SNR w, assign_x w, assign_Y w,
      assign_num_signal w, assign_phi w, assign_signal w,
      assign_num_fine f, assign_x_fine w, assign_y_fine w, interpolate_all w,
      flatten_y_fine, repeat_x_fine]"

definition data_cell :: "world \<Rightarrow> stmt list" where
  "data_cell w = data_cell_of w 1000 100 800"

subsection \<open>Cell 8: the histogram figure\<close>

definition make_figure :: "world \<Rightarrow> stmt" where
  "make_figure w s = raising s
     (and_then (need ''plt'' s) (\<lambda>_.
      and_then (ext w ''plt.subplots'') (\<lambda>_.
      Inr (s\<lparr>v_fig := Some \<lparr>figsize = (8, 4), constrained_layout = True, colorbars = []\<rparr>,
             v_axes := Some \<lparr>meshes = [], title = []\<rparr>\<rparr>))))"

definition assign_cmap :: "world \<Rightarrow> stmt" where
  "assign_cmap w s = raising s
     (and_then (need ''copy'' s) (\<lambda>_.
      and_then (need ''plt'' s) (\<lambda>_.
      and_then (ext w ''copy'') (\<lambda>_.
      Inr (s\<lparr>v_cmap := Some \<lparr>cmap_name = ''plasma'', bad = None\<rparr>\<rparr>)))))"

text \<open>\<^verbatim>\<open>cmap.set_bad(cmap(0))\<close>: entry 0 of the colormap's own table for masked values.\<close>

definition set_bad :: "world \<Rightarrow> stmt" where
  "set_bad w s = raising s
     (and_then (var ''cmap'' (v_cmap s)) (\<lambda>c.
      and_then (ext w ''cmap'') (\<lambda>_.
      and_then (ext w ''cmap.set_bad'') (\<lambda>_.
      Inr (s\<lparr>v_cmap := Some (c\<lparr>bad := Some (Lut (cmap_name c) 0)\<rparr>)\<rparr>)))))"

text \<open>\<^verbatim>\<open>h, xedges, yedges = np.histogram2d(x_fine, y_fine, bins=[400, 100])\<close>\<close>

definition assign_h :: "world \<Rightarrow> stmt" where
  "assign_h w s = raising s
     (and_then (need ''np'' s) (\<lambda>_.
      and_then (var ''x_fine'' (v_x_fine s)) (\<lambda>xf.
      and_then (var ''y_fine'' (v_y_fine s)) (\<lambda>yf.
      and_then (histogram2d (arith w) xf yf 400 100) (\<lambda>(h, xe, ye).
      Inr (s\<lparr>v_h := Some h, v_xedges := Some xe, v_yedges := Some ye\<rparr>))))))"

text \<open>
  \<^verbatim>\<open>pcm = axes.pcolormesh(xedges, yedges, h.T, cmap=cmap, norm=LogNorm(vmax=1.5e2), rasterized=True)\<close>.
  The plotting library refuses a grid of colours that fits neither the edges nor the
  centres given for it.
\<close>

definition fits_grid :: "real list \<Rightarrow> real list \<Rightarrow> array2 \<Rightarrow> error + unit" where
  "fits_grid xe ye c =
     (if shape c = (length ye - 1, length xe - 1) \<or> shape c = (length ye, length xe)
      then Inr ()
      else Inl (TypeError ''Dimensions of C are incompatible with X and/or Y''))"

definition assign_pcm :: "world \<Rightarrow> stmt" where
  "assign_pcm w s = raising s
     (and_then (var ''axes'' (v_axes s)) (\<lambda>ax.
      and_then (var ''xedges'' (v_xedges s)) (\<lambda>xe.
      and_then (var ''yedges'' (v_yedges s)) (\<lambda>ye.
      and_then (var ''h'' (v_h s)) (\<lambda>h.
      and_then (var ''cmap'' (v_cmap s)) (\<lambda>c.
      and_then (need ''LogNorm'' s) (\<lambda>_.
      and_then (ext w ''LogNorm'') (\<lambda>_.
      and_then (ext w ''axes.pcolormesh'') (\<lambda>_.
      and_then (fits_grid xe ye (transpose2 h)) (\<lambda>_.
      (let pcm = \<lparr>mesh_x = xe, mesh_y = ye, mesh_c = transpose2 h, mesh_cmap = c,
                  norm_vmax = rnd (arith w) 150, rasterized = True\<rparr>
       in Inr (s\<lparr>v_pcm := Some pcm,
                 v_axes := Some (ax\<lparr>meshes := meshes ax @ [pcm]\<rparr>)\<rparr>))))))))))))"

text \<open>\<^verbatim>\<open>fig.colorbar(pcm, ax=axes, label="# points", pad=0)\<close>\<close>

definition add_colorbar :: "world \<Rightarrow> stmt" where
  "add_colorbar w s = raising s
     (and_then (var ''fig'' (v_fig s)) (\<lambda>fg.
      and_then (var ''pcm'' (v_pcm s)) (\<lambda>_.
      and_then (var ''axes'' (v_axes s)) (\<lambda>_.
      and_then (ext w ''fig.colorbar'') (\<lambda>_.
      Inr (s\<lparr>v_fig := Some
        (fg\<lparr>colorbars := colorbars fg @ [\<lparr>cb_label = ''# points'', cb_pad = 0\<rparr>]\<rparr>)\<rparr>))))))"

text \<open>\<^verbatim>\<open>axes.set_title("2d histogram and log color scale");\<close>\<close>

definition set_title :: "world \<Rightarrow> stmt" where
  "set_title w s = raising s
     (and_then (var ''axes'' (v_axes s)) (\<lambda>ax.
      and_then (ext w ''axes.set_title'') (\<lambda>_.
      Inr (s\<lparr>v_axes := Some (ax\<lparr>title := ''2d histogram and log color scale''\<rparr>)\<rparr>))))"

definition hist_cell :: "world \<Rightarrow> stmt list" where
  "hist_cell w =
     [make_figure w, assign_cmap w, set_bad w, assign_h w, assign_pcm w, add_colorbar w,
      set_title w]"

subsection \<open>Cells 9 and 10: the map\<close>

definition leafmap_cell :: "world \<Rightarrow> stmt list" where
  "leafmap_cell w = [import_as w ''leafmap.foliumap'' [''leafmap'']]"

text \<open>\<^verbatim>\<open>m = leafmap.Map(height=600, center=[39.4948, -108.5492], zoom=12)\<close>\<close>

definition assign_m :: "world \<Rightarrow> stmt" where
  "assign_m w s = raising s
     (and_then (need ''leafmap'' s) (\<lambda>_.
      and_then (ext w ''leafmap.Map'') (\<lambda>_.
      Inr (s\<lparr>v_m := Some
        \<lparr>height = 600,
         center = [rnd (arith w) (394948 / 10000), - rnd (arith w) (1085492 / 10000)],
         zoom = 12, split = None\<rparr>\<rparr>))))"

definition assign_url :: stmt where
  "assign_url s = Inr (s\<lparr>v_url := Some
     ''https://github.com/opengeos/data/releases/download/raster/Libya-2023-07-01.tif''\<rparr>)"

definition assign_url2 :: stmt where
  "assign_url2 s = Inr (s\<lparr>v_url2 := Some
     ''https://github.com/opengeos/data/releases/download/raster/Libya-2023-09-13.tif''\<rparr>)"

text \<open>\<^verbatim>\<open>m.split_map(url, url2)\<close> fetches the two rasters; then \<^verbatim>\<open>m\<close> is displayed.\<close>

definition split_map :: "world \<Rightarrow> stmt" where
  "split_map w s = raising s
     (and_then (var ''m'' (v_m s)) (\<lambda>mp.
      and_then (var ''url'' (v_url s)) (\<lambda>u.
      and_then (var ''url2'' (v_url2 s)) (\<lambda>u2.
      and_then (ext w ''m.split_map'') (\<lambda>_.
      Inr (s\<lparr>v_m := Some (mp\<lparr>split := Some (u, u2)\<rparr>)\<rparr>))))))"

definition show_m :: stmt where
  "show_m s = raising s
     (and_then (var ''m'' (v_m s)) (\<lambda>mp.
      Inr (s\<lparr>displayed := displayed s @ [Show_map mp]\<rparr>)))"

definition map_cell :: "world \<Rightarrow> stmt list" where
  "map_cell w = [assign_m w, assign_url, assign_url2, split_map w, show_m]"

subsection \<open>The notebook's code\<close>

text \<open>
  The code cells with their positions in the notebook; cell 11 is empty. Running the
  notebook runs them in this order from a fresh kernel and stops at the first error.
\<close>

definition program :: "world \<Rightarrow> (nat \<times> stmt list) list" where
  "program w =
     [(1, chart_cell w), (3, display_cell w), (4, import_cell w), (6, data_cell w),
      (8, hist_cell w), (9, leafmap_cell w), (10, map_cell w), (11, [])]"

definition run_cells :: "stmt list list \<Rightarrow> stmt" where
  "run_cells cs = exec (concat cs)"

definition run_notebook :: "world \<Rightarrow> (error \<times> state) + state" where
  "run_notebook w = run_cells (map snd (program w)) fresh"

section \<open>Properties of the document\<close>

text \<open>
  Claim C7. Exactly two code cells carry an output label: cell 3, which displays the
  interactive chart \<^verbatim>\<open>points & bars\<close>, is labelled \<^verbatim>\<open>horsepower\<close>, and cell 8, which
  draws the histogram figure, is labelled \<^verbatim>\<open>plasma\<close>. The only markdown cross-reference
  of the notebook, \<^verbatim>\<open>(#horsepower)\<close> in cell 5, names a label that a cell of this notebook
  defines. The labels are comment lines of the cells' source: the metadata object of
  every cell is empty.
\<close>

theorem labels_and_cross_reference:
  "labels notebook = [(3, ''horsepower''), (8, ''plasma'')]
   \<and> cross_references notebook = [(5, ''horsepower'')]
   \<and> set (map snd (cross_references notebook)) \<subseteq> set (map snd (labels notebook))
   \<and> cell_type (notebook ! 3) = Code \<and> last (source (notebook ! 3)) = ''points & bars''
   \<and> cell_type (notebook ! 8) = Code
   \<and> list_ex (contains ''np.histogram2d'') (source (notebook ! 8))
   \<and> map metadata notebook = replicate 12 []"
  by code_simp

end
